theory Spec2Isabelle
  imports Main
begin

section \<open>The extension controller: values, events and collaborators\<close>

text \<open>
  This theory embeds the command layer of \<^verbatim>\<open>src/mdbExtensionController.ts\<close>:
  \<^verbatim>\<open>registerCommand\<close> with its telemetry wrapper, the tree-view command handlers,
  \<^verbatim>\<open>showOverviewPageIfRecentlyInstalled\<close>, and \<^verbatim>\<open>deactivate\<close>/\<^verbatim>\<open>dispose\<close>.

  The controller only orchestrates collaborators (connection controller, explorer,
  playground controller, storage, telemetry, clipboard, notifications) whose code is in
  other modules. Every call the controller makes to one of them is recorded, in program
  order, as an \<open>event\<close> in the \<open>trace\<close> of the world; what the collaborator answers is a
  field of the world (or of the tree item the method belongs to), so that a theorem
  quantifies over every possible answer.

  A promise that has settled is a value of \<open>'a settled\<close>. An exception raised inside an
  \<^verbatim>\<open>async\<close> function rejects its promise; a synchronous throw of a non-\<^verbatim>\<open>async\<close> handler
  reaches the host in the same way, and is represented as \<open>Rejected\<close> too. \<open>TypeError\<close> is
  the fault of reading a property of \<^verbatim>\<open>undefined\<close> or \<^verbatim>\<open>null\<close>.
\<close>

datatype fault = TypeError | ExternalFault string

datatype 'a settled = Resolved 'a | Rejected fault

text \<open>
  A synchronous call either throws or returns. What it returns may itself be a promise,
  which settles only for a caller that awaits it.
\<close>

datatype 'a returned = Throws fault | Returns 'a

text \<open>
  \<^verbatim>\<open>EXTENSION_COMMANDS\<close> and \<^verbatim>\<open>StorageVariables\<close> are enumerations declared in other modules;
  the members listed are the ones the embedded code names.
\<close>

datatype extension_command =
    MDB_OPEN_OVERVIEW_PAGE
  | MDB_REFRESH_CONNECTION
  | MDB_COPY_CONNECTION_STRING
  | MDB_ADD_DATABASE
  | MDB_COPY_DATABASE_NAME
  | MDB_DROP_DATABASE
  | MDB_REFRESH_DATABASE
  | MDB_ADD_COLLECTION
  | MDB_COPY_COLLECTION_NAME
  | MDB_DROP_COLLECTION
  | MDB_REFRESH_COLLECTION
  | MDB_REFRESH_DOCUMENT_LIST
  | MDB_REFRESH_SCHEMA
  | MDB_COPY_SCHEMA_FIELD_NAME
  | MDB_REFRESH_INDEXES
  | MDB_COPY_DOCUMENT_CONTENTS_FROM_TREE_VIEW
  | MDB_DELETE_DOCUMENT_FROM_TREE_VIEW
  | MDB_GENERATE_OBJECTID_TO_CLIPBOARD

datatype storage_variable = GLOBAL_HAS_BEEN_SHOWN_INITIAL_VIEW

datatype component =
    ExplorerController
  | HelpExplorer
  | PlaygroundsExplorer
  | PlaygroundController
  | TelemetryService
  | LanguageServerController
  | EditorsController

text \<open>
  A tree item, as far as the handlers of this file look at it: the properties they read
  and, for each method they call, how that call settles. \<open>resetCache\<close> is called
  without \<^verbatim>\<open>await\<close> by some handlers and with it by another, so its field says both
  whether the call returns and how the returned promise settles. The tree item classes
  themselves (\<^verbatim>\<open>ConnectionTreeItem\<close>, \<^verbatim>\<open>DatabaseTreeItem\<close>, ...) live in \<^verbatim>\<open>./explorer\<close>.
\<close>

record tree_item =
  connectionId :: string
  databaseName :: string
  collectionName :: string
  getFieldName :: string
  resetCache :: "unit settled returned"
  onDropDatabaseClicked :: "bool settled"
  onDropCollectionClicked :: "bool settled"
  onDeleteDocumentClicked :: "bool settled"
  getStringifiedEJSONDocumentContents :: "string settled"

text \<open>
  What the host can hand to a handler in an argument position. The handlers are typed to
  receive a tree item; at run time the position can also be empty (a command started
  from the command palette or a key binding), which JavaScript reads as \<^verbatim>\<open>undefined\<close>.
\<close>

datatype jsval = Undefined | Null | Item tree_item

fun truthy :: "jsval \<Rightarrow> bool" where
  "truthy Undefined = False"
| "truthy Null = False"
| "truthy (Item _) = True"

datatype event =
    TrackCommandRun extension_command
  | ShowInformationMessage string
  | ShowErrorMessage string
  | ClipboardWriteText string
  | ExplorerRefresh
  | ResetCache tree_item
  | FetchChildren tree_item
  | OnDropDatabaseClicked tree_item
  | OnDropCollectionClicked tree_item
  | OnDeleteDocumentClicked tree_item
  | GetStringifiedEJSONDocumentContents tree_item
  | CopyConnectionStringByConnectionId string
  | CreatePlaygroundForCreateCollection jsval
  | GenerateId
  | ExecuteCommand extension_command
  | StorageUpdate storage_variable bool
  | DisconnectCalled
  | DisconnectSettled
  | Deactivated component

text \<open>
  The world: the trace of collaborator calls made so far, the observable state of the
  connection controller, the persisted storage, how each collaborator operation
  settles when it is called, and the tree layer: the children cached for each node and
  the children the server has for it now.
\<close>

record world =
  trace :: "event list"
  getActiveConnectionId :: "string option"
  isConnecting :: bool
  isDisconnecting :: bool
  disconnect :: "bool settled"
  copyConnectionStringByConnectionId :: "string \<Rightarrow> string settled"
  createPlaygroundForCreateCollection :: "jsval \<Rightarrow> bool settled"
  writeText :: "string \<Rightarrow> unit settled"
  generateId :: string
  storage :: "storage_variable \<Rightarrow> bool option"
  hasSavedConnections :: bool
  childrenCache :: "tree_item \<Rightarrow> string list option"
  liveChildren :: "tree_item \<Rightarrow> string list"

type_synonym handler = "jsval list \<Rightarrow> world \<Rightarrow> bool settled \<times> world"

type_synonym subscriptions = "(extension_command \<times> handler) list"

definition emit :: "event \<Rightarrow> world \<Rightarrow> world" where
  "emit e w = w\<lparr>trace := trace w @ [e]\<rparr>"

text \<open>The events a run has added to the trace it started from.\<close>

definition new_events :: "world \<Rightarrow> world \<Rightarrow> event list" where
  "new_events w w' = drop (length (trace w)) (trace w')"

text \<open>
  JavaScript parameter binding: the i-th parameter of a function is the i-th argument
  of the call, and \<^verbatim>\<open>undefined\<close> when the call has fewer arguments.
\<close>

definition param :: "jsval list \<Rightarrow> nat \<Rightarrow> jsval" where
  "param args i = (if i < length args then args ! i else Undefined)"

text \<open>\<^verbatim>\<open>await p\<close> followed by the rest of an async function: a rejection ends the function.\<close>

definition await :: "'a settled \<times> world \<Rightarrow> ('a \<Rightarrow> world \<Rightarrow> 'b settled \<times> world) \<Rightarrow> 'b settled \<times> world" where
  "await p k = (case p of (Resolved v, w) \<Rightarrow> k v w | (Rejected f, w) \<Rightarrow> (Rejected f, w))"

subsection \<open>Calls to collaborators\<close>

text \<open>
  Notifications, the explorer's refresh signal, telemetry and the components'
  \<^verbatim>\<open>deactivate\<close> are fire-and-forget calls: the controller does not look at their result.
\<close>

definition showInformationMessage :: "string \<Rightarrow> world \<Rightarrow> world" where
  "showInformationMessage message w = emit (ShowInformationMessage message) w"

definition showErrorMessage :: "string \<Rightarrow> world \<Rightarrow> world" where
  "showErrorMessage message w = emit (ShowErrorMessage message) w"

definition explorerController_refresh :: "world \<Rightarrow> world" where
  "explorerController_refresh w = emit ExplorerRefresh w"

definition trackCommandRun :: "extension_command \<Rightarrow> world \<Rightarrow> world" where
  "trackCommandRun command w = emit (TrackCommandRun command) w"

definition executeCommand :: "extension_command \<Rightarrow> world \<Rightarrow> world" where
  "executeCommand command w = emit (ExecuteCommand command) w"

definition component_deactivate :: "component \<Rightarrow> world \<Rightarrow> world" where
  "component_deactivate c w = emit (Deactivated c) w"

definition clipboard_writeText :: "string \<Rightarrow> world \<Rightarrow> unit settled \<times> world" where
  "clipboard_writeText text w = (writeText w text, emit (ClipboardWriteText text) w)"

text \<open>
  Modelled from the spec: the tree items and the tree view (\<^verbatim>\<open>./explorer\<close>) are not part
  of this file. The spec says that \<^verbatim>\<open>resetCache(node)\<close> clears the node's cached
  children, that a node's cache is created on expansion and recreated lazily on the next
  expansion after it was invalidated, and that an expansion after a reset triggers a
  fresh fetch. So a \<open>resetCache\<close> call that returns has emptied the cache entry of its
  node (one that throws leaves it as it was), and expanding a node answers the cached
  children when there are some, and otherwise fetches the live children and caches them.
\<close>

definition item_resetCache ::
  "tree_item \<Rightarrow> world \<Rightarrow> unit settled returned \<times> world" where
  "item_resetCache item w =
     (resetCache item,
      (case resetCache item of
         Throws _ \<Rightarrow> emit (ResetCache item) w
       | Returns _ \<Rightarrow> emit (ResetCache item) (w\<lparr>childrenCache := (childrenCache w)(item := None)\<rparr>)))"

definition expand_node :: "tree_item \<Rightarrow> world \<Rightarrow> string list \<times> world" where
  "expand_node node w =
     (case childrenCache w node of
        Some cached \<Rightarrow> (cached, w)
      | None \<Rightarrow>
          (let fetched = liveChildren w node
           in (fetched,
               emit (FetchChildren node) (w\<lparr>childrenCache := (childrenCache w)(node \<mapsto> fetched)\<rparr>))))"

definition item_onDropDatabaseClicked :: "tree_item \<Rightarrow> world \<Rightarrow> bool settled \<times> world" where
  "item_onDropDatabaseClicked item w = (onDropDatabaseClicked item, emit (OnDropDatabaseClicked item) w)"

definition item_onDropCollectionClicked :: "tree_item \<Rightarrow> world \<Rightarrow> bool settled \<times> world" where
  "item_onDropCollectionClicked item w =
     (onDropCollectionClicked item, emit (OnDropCollectionClicked item) w)"

definition item_onDeleteDocumentClicked :: "tree_item \<Rightarrow> world \<Rightarrow> bool settled \<times> world" where
  "item_onDeleteDocumentClicked item w =
     (onDeleteDocumentClicked item, emit (OnDeleteDocumentClicked item) w)"

definition item_getStringifiedEJSONDocumentContents ::
  "tree_item \<Rightarrow> world \<Rightarrow> string settled \<times> world" where
  "item_getStringifiedEJSONDocumentContents item w =
     (getStringifiedEJSONDocumentContents item, emit (GetStringifiedEJSONDocumentContents item) w)"

definition connectionController_copyConnectionStringByConnectionId ::
  "string \<Rightarrow> world \<Rightarrow> string settled \<times> world" where
  "connectionController_copyConnectionStringByConnectionId cid w =
     (copyConnectionStringByConnectionId w cid, emit (CopyConnectionStringByConnectionId cid) w)"

definition playgroundController_createPlaygroundForCreateCollection ::
  "jsval \<Rightarrow> world \<Rightarrow> bool settled \<times> world" where
  "playgroundController_createPlaygroundForCreateCollection element w =
     (createPlaygroundForCreateCollection w element, emit (CreatePlaygroundForCreateCollection element) w)"

definition generateId_toHexString :: "world \<Rightarrow> string \<times> world" where
  "generateId_toHexString w = (generateId w, emit GenerateId w)"

text \<open>
  \<^verbatim>\<open>await this._connectionController.disconnect()\<close>: the call is made, and the function
  goes on only after the promise has settled.
\<close>

definition connectionController_disconnect :: "world \<Rightarrow> bool settled \<times> world" where
  "connectionController_disconnect w = (disconnect w, emit DisconnectSettled (emit DisconnectCalled w))"

text \<open>
  Modelled from the spec: the storage controller (\<^verbatim>\<open>./storage\<close>) is not part of this
  file. The spec describes it as a durable key/value store with synchronous-looking
  read-after-write semantics, so \<open>update\<close> takes effect at once and \<open>get\<close> reads the
  stored value (\<open>None\<close> for a key never written, which JavaScript coerces to false).
\<close>

definition storageController_get :: "storage_variable \<Rightarrow> world \<Rightarrow> bool option" where
  "storageController_get key w = storage w key"

definition storageController_update :: "storage_variable \<Rightarrow> bool \<Rightarrow> world \<Rightarrow> world" where
  "storageController_update key v w = emit (StorageUpdate key v) (w\<lparr>storage := (storage w)(key \<mapsto> v)\<rparr>)"

section \<open>registerCommand and the telemetry wrapper\<close>

text \<open>
  \<^verbatim>\<open>
  registerCommand = (command, commandHandler: (...args: any[]) => Promise<boolean>) => {
    const commandHandlerWithTelemetry = (args: any[]): Promise<boolean> => {
      this._telemetryService.trackCommandRun(command);
      return commandHandler(args);
    };
    this._context.subscriptions.push(
      vscode.commands.registerCommand(command, commandHandlerWithTelemetry));
  };
  \<close>
  The host calls the registered callback with the arguments of the invocation spread
  over its parameters. The wrapper declares one parameter, \<^verbatim>\<open>args\<close>, which is therefore
  bound to the first host argument, and it calls \<^verbatim>\<open>commandHandler\<close> with that one value.
\<close>

definition commandHandlerWithTelemetry :: "extension_command \<Rightarrow> handler \<Rightarrow> handler" where
  "commandHandlerWithTelemetry command commandHandler hostArgs w =
     (let args = param hostArgs 0;
          w1 = trackCommandRun command w
      in commandHandler [args] w1)"

definition registerCommand :: "extension_command \<Rightarrow> handler \<Rightarrow> subscriptions \<Rightarrow> subscriptions" where
  "registerCommand command commandHandler subs =
     subs @ [(command, commandHandlerWithTelemetry command commandHandler)]"

section \<open>Tree-view command handlers\<close>

subsection \<open>Refresh commands\<close>

text \<open>
  Five of the six refresh handlers are plain functions: they call \<^verbatim>\<open>resetCache()\<close>,
  discard what it returns, call \<open>refresh\<close> and return \<^verbatim>\<open>Promise.resolve(true)\<close>. Only a
  throw of the call itself stops them (it reaches the host as a failure of the command);
  a promise the call returns is not awaited, so its rejection changes nothing. The
  document-list handler is \<^verbatim>\<open>async\<close> and awaits what the call returns.
\<close>

definition MDB_REFRESH_CONNECTION_handler :: handler where
  "MDB_REFRESH_CONNECTION_handler args w =
     (case param args 0 of
        Item connectionTreeItem \<Rightarrow>
          (case item_resetCache connectionTreeItem w of
             (Throws f, w1) \<Rightarrow> (Rejected f, w1)
           | (Returns _, w1) \<Rightarrow> (Resolved True, explorerController_refresh w1))
      | _ \<Rightarrow> (Rejected TypeError, w))"

definition MDB_REFRESH_DATABASE_handler :: handler where
  "MDB_REFRESH_DATABASE_handler args w =
     (case param args 0 of
        Item databaseTreeItem \<Rightarrow>
          (case item_resetCache databaseTreeItem w of
             (Throws f, w1) \<Rightarrow> (Rejected f, w1)
           | (Returns _, w1) \<Rightarrow> (Resolved True, explorerController_refresh w1))
      | _ \<Rightarrow> (Rejected TypeError, w))"

definition MDB_REFRESH_COLLECTION_handler :: handler where
  "MDB_REFRESH_COLLECTION_handler args w =
     (case param args 0 of
        Item collectionTreeItem \<Rightarrow>
          (case item_resetCache collectionTreeItem w of
             (Throws f, w1) \<Rightarrow> (Rejected f, w1)
           | (Returns _, w1) \<Rightarrow> (Resolved True, explorerController_refresh w1))
      | _ \<Rightarrow> (Rejected TypeError, w))"

definition MDB_REFRESH_DOCUMENT_LIST_handler :: handler where
  "MDB_REFRESH_DOCUMENT_LIST_handler args w =
     (case param args 0 of
        Item documentsListTreeItem \<Rightarrow>
          (case item_resetCache documentsListTreeItem w of
             (Throws f, w1) \<Rightarrow> (Rejected f, w1)
           | (Returns promise, w1) \<Rightarrow>
               await (promise, w1) (\<lambda>_ w2. (Resolved True, explorerController_refresh w2)))
      | _ \<Rightarrow> (Rejected TypeError, w))"

definition MDB_REFRESH_SCHEMA_handler :: handler where
  "MDB_REFRESH_SCHEMA_handler args w =
     (case param args 0 of
        Item schemaTreeItem \<Rightarrow>
          (case item_resetCache schemaTreeItem w of
             (Throws f, w1) \<Rightarrow> (Rejected f, w1)
           | (Returns _, w1) \<Rightarrow> (Resolved True, explorerController_refresh w1))
      | _ \<Rightarrow> (Rejected TypeError, w))"

definition MDB_REFRESH_INDEXES_handler :: handler where
  "MDB_REFRESH_INDEXES_handler args w =
     (case param args 0 of
        Item indexListTreeItem \<Rightarrow>
          (case item_resetCache indexListTreeItem w of
             (Throws f, w1) \<Rightarrow> (Rejected f, w1)
           | (Returns _, w1) \<Rightarrow> (Resolved True, explorerController_refresh w1))
      | _ \<Rightarrow> (Rejected TypeError, w))"

subsection \<open>Clipboard commands\<close>

definition MDB_COPY_CONNECTION_STRING_handler :: handler where
  "MDB_COPY_CONNECTION_STRING_handler args w =
     (case param args 0 of
        Item element \<Rightarrow>
          await (connectionController_copyConnectionStringByConnectionId (connectionId element) w)
            (\<lambda>connectionString w1.
               await (clipboard_writeText connectionString w1)
                 (\<lambda>_ w2. (Resolved True, showInformationMessage ''Copied to clipboard.'' w2)))
      | _ \<Rightarrow> (Rejected TypeError, w))"

definition MDB_COPY_DATABASE_NAME_handler :: handler where
  "MDB_COPY_DATABASE_NAME_handler args w =
     (case param args 0 of
        Item element \<Rightarrow>
          await (clipboard_writeText (databaseName element) w)
            (\<lambda>_ w1. (Resolved True, showInformationMessage ''Copied to clipboard.'' w1))
      | _ \<Rightarrow> (Rejected TypeError, w))"

definition MDB_COPY_COLLECTION_NAME_handler :: handler where
  "MDB_COPY_COLLECTION_NAME_handler args w =
     (case param args 0 of
        Item element \<Rightarrow>
          await (clipboard_writeText (collectionName element) w)
            (\<lambda>_ w1. (Resolved True, showInformationMessage ''Copied to clipboard.'' w1))
      | _ \<Rightarrow> (Rejected TypeError, w))"

definition MDB_COPY_SCHEMA_FIELD_NAME_handler :: handler where
  "MDB_COPY_SCHEMA_FIELD_NAME_handler args w =
     (case param args 0 of
        Item fieldTreeItem \<Rightarrow>
          await (clipboard_writeText (getFieldName fieldTreeItem) w)
            (\<lambda>_ w1. (Resolved True, showInformationMessage ''Copied to clipboard.'' w1))
      | _ \<Rightarrow> (Rejected TypeError, w))"

definition MDB_COPY_DOCUMENT_CONTENTS_FROM_TREE_VIEW_handler :: handler where
  "MDB_COPY_DOCUMENT_CONTENTS_FROM_TREE_VIEW_handler args w =
     (case param args 0 of
        Item documentTreeItem \<Rightarrow>
          await (item_getStringifiedEJSONDocumentContents documentTreeItem w)
            (\<lambda>documentContents w1.
               await (clipboard_writeText documentContents w1)
                 (\<lambda>_ w2. (Resolved True, showInformationMessage ''Copied to clipboard.'' w2)))
      | _ \<Rightarrow> (Rejected TypeError, w))"

definition MDB_GENERATE_OBJECTID_TO_CLIPBOARD_handler :: handler where
  "MDB_GENERATE_OBJECTID_TO_CLIPBOARD_handler args w =
     (case generateId_toHexString w of
        (hex, w1) \<Rightarrow>
          await (clipboard_writeText hex w1)
            (\<lambda>_ w2. (Resolved True, showInformationMessage ''Copied to clipboard.'' w2)))"

subsection \<open>Add database, add collection\<close>

definition MDB_ADD_DATABASE_handler :: handler where
  "MDB_ADD_DATABASE_handler args w =
     (let element = param args 0 in
      if \<not> truthy element then
        (Resolved False,
         showErrorMessage
           ''Please wait for the connection to finish loading before adding a database.'' w)
      else
        (case element of
           Item connectionTreeItem \<Rightarrow>
             if Some (connectionId connectionTreeItem) \<noteq> getActiveConnectionId w then
               (Resolved False,
                showErrorMessage ''Please connect to this connection before adding a database.'' w)
             else if isDisconnecting w then
               (Resolved False,
                showErrorMessage ''Unable to add database: currently disconnecting.'' w)
             else if isConnecting w then
               (Resolved False,
                showErrorMessage ''Unable to add database: currently connecting.'' w)
             else playgroundController_createPlaygroundForCreateCollection element w
         | _ \<Rightarrow> (Rejected TypeError, w)))"

definition MDB_ADD_COLLECTION_handler :: handler where
  "MDB_ADD_COLLECTION_handler args w =
     (let element = param args 0 in
      if isDisconnecting w then
        (Resolved False,
         showErrorMessage ''Unable to add collection: currently disconnecting.'' w)
      else playgroundController_createPlaygroundForCreateCollection element w)"

subsection \<open>Drop database, drop collection, delete document\<close>

definition MDB_DROP_DATABASE_handler :: handler where
  "MDB_DROP_DATABASE_handler args w =
     (case param args 0 of
        Item element \<Rightarrow>
          await (item_onDropDatabaseClicked element w)
            (\<lambda>successfullyDroppedDatabase w1.
               if successfullyDroppedDatabase then
                 (Resolved successfullyDroppedDatabase,
                  explorerController_refresh
                    (showInformationMessage ''Database successfully dropped.'' w1))
               else (Resolved successfullyDroppedDatabase, w1))
      | _ \<Rightarrow> (Rejected TypeError, w))"

definition MDB_DROP_COLLECTION_handler :: handler where
  "MDB_DROP_COLLECTION_handler args w =
     (case param args 0 of
        Item element \<Rightarrow>
          await (item_onDropCollectionClicked element w)
            (\<lambda>successfullyDroppedCollection w1.
               if successfullyDroppedCollection then
                 (Resolved successfullyDroppedCollection,
                  explorerController_refresh
                    (showInformationMessage ''Collection successfully dropped.'' w1))
               else (Resolved successfullyDroppedCollection, w1))
      | _ \<Rightarrow> (Rejected TypeError, w))"

definition MDB_DELETE_DOCUMENT_FROM_TREE_VIEW_handler :: handler where
  "MDB_DELETE_DOCUMENT_FROM_TREE_VIEW_handler args w =
     (case param args 0 of
        Item documentTreeItem \<Rightarrow>
          await (item_onDeleteDocumentClicked documentTreeItem w)
            (\<lambda>successfullyDropped w1.
               if successfullyDropped then
                 (Resolved successfullyDropped,
                  explorerController_refresh
                    (showInformationMessage ''Document successfully deleted.'' w1))
               else (Resolved successfullyDropped, w1))
      | _ \<Rightarrow> (Rejected TypeError, w))"

section \<open>The first-run gate\<close>

definition showOverviewPageIfRecentlyInstalled :: "world \<Rightarrow> world" where
  "showOverviewPageIfRecentlyInstalled w =
     (let hasBeenShownViewAlready =
            (storageController_get GLOBAL_HAS_BEEN_SHOWN_INITIAL_VIEW w = Some True)
      in if \<not> hasBeenShownViewAlready then
           (let w1 = (if \<not> hasSavedConnections w then executeCommand MDB_OPEN_OVERVIEW_PAGE w
                      else w)
            in storageController_update GLOBAL_HAS_BEEN_SHOWN_INITIAL_VIEW True w1)
         else w)"

text \<open>
  A run of activations. \<^verbatim>\<open>activate\<close> ends with the gate; between two activations the
  storage persists, while the set of saved connections may have changed: the list gives,
  for each activation, what \<^verbatim>\<open>hasSavedConnections()\<close> answers at that activation.
  An activation that fails before it reaches the gate leaves the storage as it is and is
  not part of the list.
\<close>

fun activations :: "bool list \<Rightarrow> world \<Rightarrow> world" where
  "activations [] w = w"
| "activations (saved # rest) w =
     activations rest (showOverviewPageIfRecentlyInstalled (w\<lparr>hasSavedConnections := saved\<rparr>))"

section \<open>Teardown\<close>

definition deactivate :: "world \<Rightarrow> unit settled \<times> world" where
  "deactivate w =
     await (connectionController_disconnect w)
       (\<lambda>_ w1.
          (let w2 = component_deactivate ExplorerController w1;
               w3 = component_deactivate HelpExplorer w2;
               w4 = component_deactivate PlaygroundsExplorer w3;
               w5 = component_deactivate PlaygroundController w4;
               w6 = component_deactivate TelemetryService w5;
               w7 = component_deactivate LanguageServerController w6;
               w8 = component_deactivate EditorsController w7
           in (Resolved (), w8)))"

definition dispose :: "world \<Rightarrow> unit settled \<times> world" where
  "dispose w = await (deactivate w) (\<lambda>_ w1. (Resolved (), w1))"

section \<open>Vocabulary of the properties\<close>

text \<open>User-visible messages in a list of events, and refresh signals to the explorer.\<close>

fun is_message :: "event \<Rightarrow> bool" where
  "is_message (ShowInformationMessage _) = True"
| "is_message (ShowErrorMessage _) = True"
| "is_message _ = False"

definition messages :: "event list \<Rightarrow> event list" where
  "messages es = filter is_message es"

definition refreshes :: "event list \<Rightarrow> nat" where
  "refreshes es = count_list es ExplorerRefresh"

text \<open>
  The two outcomes of a mutating tree command: one confirmation, one refresh and
  \<^verbatim>\<open>true\<close>; or no message, no refresh and \<^verbatim>\<open>false\<close>.
\<close>

definition confirmed_and_refreshed :: "handler \<Rightarrow> jsval list \<Rightarrow> world \<Rightarrow> string \<Rightarrow> bool" where
  "confirmed_and_refreshed h args w confirmation =
     (fst (h args w) = Resolved True
      \<and> messages (new_events w (snd (h args w))) = [ShowInformationMessage confirmation]
      \<and> refreshes (new_events w (snd (h args w))) = 1)"

definition silent_failure :: "handler \<Rightarrow> jsval list \<Rightarrow> world \<Rightarrow> bool" where
  "silent_failure h args w =
     (fst (h args w) = Resolved False
      \<and> messages (new_events w (snd (h args w))) = []
      \<and> refreshes (new_events w (snd (h args w))) = 0)"

text \<open>
  The four preconditions of "add database", as the spec words them: the tree node is
  given, it belongs to the active connection, and the connection is neither
  disconnecting nor connecting.
\<close>

definition add_database_preconditions :: "jsval \<Rightarrow> world \<Rightarrow> bool" where
  "add_database_preconditions element w =
     (case element of
        Item node \<Rightarrow>
          Some (connectionId node) = getActiveConnectionId w
          \<and> \<not> isDisconnecting w \<and> \<not> isConnecting w
      | _ \<Rightarrow> False)"

text \<open>
  What a refresh command achieves on a node: it resolves to \<^verbatim>\<open>true\<close> having reset the
  node's cache and then signalled one refresh, and nothing else; and the next expansion
  of the node fetches the live children instead of answering from a cache.
\<close>

definition refreshed :: "handler \<Rightarrow> jsval list \<Rightarrow> world \<Rightarrow> tree_item \<Rightarrow> bool" where
  "refreshed h args w node =
     (fst (h args w) = Resolved True
      \<and> trace (snd (h args w)) = trace w @ [ResetCache node, ExplorerRefresh]
      \<and> fst (expand_node node (snd (h args w))) = liveChildren w node
      \<and> trace (snd (expand_node node (snd (h args w)))) =
          trace (snd (h args w)) @ [FetchChildren node])"

text \<open>The first-run flag, read the way the gate reads it.\<close>

definition shown :: "world \<Rightarrow> bool" where
  "shown w = (storage w GLOBAL_HAS_BEEN_SHOWN_INITIAL_VIEW = Some True)"

text \<open>
  The first-run gate as the spec words it, over a run of activations: nothing happens
  when the flag is already Shown or there is no activation; otherwise the first
  activation triggers "open overview" if no saved connection exists, and then sets the
  flag.
\<close>

definition gate_events :: "bool \<Rightarrow> bool list \<Rightarrow> event list" where
  "gate_events already cs =
     (case cs of
        [] \<Rightarrow> []
      | saved # _ \<Rightarrow>
          if already then []
          else (if saved then [] else [ExecuteCommand MDB_OPEN_OVERVIEW_PAGE])
               @ [StorageUpdate GLOBAL_HAS_BEEN_SHOWN_INITIAL_VIEW True])"

text \<open>
  The first-run flag as it stands before each activation of a run and after the last.
\<close>

fun flag_history :: "bool list \<Rightarrow> world \<Rightarrow> bool list" where
  "flag_history [] w = [shown w]"
| "flag_history (saved # rest) w =
     shown w # flag_history rest
       (showOverviewPageIfRecentlyInstalled (w\<lparr>hasSavedConnections := saved\<rparr>))"

section \<open>Sample inputs\<close>

definition sample_item :: tree_item where
  "sample_item =
     \<lparr>connectionId = ''conn-1'', databaseName = ''shop'', collectionName = ''orders'',
      getFieldName = ''price'', resetCache = Returns (Resolved ()),
      onDropDatabaseClicked = Resolved True, onDropCollectionClicked = Resolved True,
      onDeleteDocumentClicked = Resolved True,
      getStringifiedEJSONDocumentContents = Resolved ''{}''\<rparr>"

text \<open>A node whose \<open>resetCache\<close> returns a promise that is rejected.\<close>

definition failing_reset_item :: tree_item where
  "failing_reset_item = sample_item\<lparr>resetCache := Returns (Rejected (ExternalFault ''count''))\<rparr>"

definition refusing_item :: tree_item where
  "refusing_item =
     sample_item\<lparr>onDropDatabaseClicked := Resolved False,
       onDropCollectionClicked := Resolved False, onDeleteDocumentClicked := Resolved False\<rparr>"

definition connected_world :: world where
  "connected_world =
     \<lparr>trace = [], getActiveConnectionId = Some ''conn-1'', isConnecting = False,
      isDisconnecting = False, disconnect = Resolved True,
      copyConnectionStringByConnectionId = (\<lambda>_. Resolved ''mongodb://localhost:27017''),
      createPlaygroundForCreateCollection = (\<lambda>_. Resolved True),
      writeText = (\<lambda>_. Resolved ()),
      generateId = ''5f1b2c3d4e5f6a7b8c9d0e1f'',
      storage = (\<lambda>_. None), hasSavedConnections = False,
      childrenCache = (\<lambda>_. Some [''stale'']),
      liveChildren = (\<lambda>_. [''admin'', ''shop''])\<rparr>"

definition other_connection_world :: world where
  "other_connection_world = connected_world\<lparr>getActiveConnectionId := Some ''conn-2''\<rparr>"

definition disconnecting_world :: world where
  "disconnecting_world = connected_world\<lparr>isDisconnecting := True\<rparr>"

definition connecting_world :: world where
  "connecting_world = connected_world\<lparr>isConnecting := True\<rparr>"

text \<open>A new installation: nothing stored, no saved connection, not connected.\<close>

definition fresh_install_world :: world where
  "fresh_install_world = connected_world\<lparr>getActiveConnectionId := None\<rparr>"

text \<open>A handler of two parameters that tells whether its second argument was given.\<close>

definition second_argument_given :: handler where
  "second_argument_given args w = (Resolved (param args 1 \<noteq> Undefined), w)"

section \<open>Basic facts\<close>

lemmas call_defs =
  emit_def await_def showInformationMessage_def showErrorMessage_def
  explorerController_refresh_def trackCommandRun_def executeCommand_def
  component_deactivate_def clipboard_writeText_def item_resetCache_def expand_node_def
  item_onDropDatabaseClicked_def item_onDropCollectionClicked_def
  item_onDeleteDocumentClicked_def item_getStringifiedEJSONDocumentContents_def
  connectionController_copyConnectionStringByConnectionId_def
  playgroundController_createPlaygroundForCreateCollection_def
  generateId_toHexString_def connectionController_disconnect_def
  storageController_get_def storageController_update_def

lemma new_events_append [simp]: "new_events w (w\<lparr>trace := trace w @ es\<rparr>) = es"
  by (simp add: new_events_def)

lemma new_events_self [simp]: "new_events w w = []"
  by (simp add: new_events_def)

section \<open>The telemetry wrapper\<close>

text \<open>
  Claim C2. The callback that \<open>registerCommand\<close> hands to the host for a command runs
  the inner handler in a world to whose trace exactly one event,
  \<open>TrackCommandRun command\<close>, has been appended: the emission comes first, once, and
  for every handler, whatever the handler then does. The second equation is the case
  of a handler that rejects: the event is in the trace all the same.
\<close>

theorem registerCommand_tracks_before_handler:
  "snd (last (registerCommand command commandHandler subs)) hostArgs w =
     commandHandler [param hostArgs 0] (w\<lparr>trace := trace w @ [TrackCommandRun command]\<rparr>)
   \<and> snd (last (registerCommand command (\<lambda>args w'. (Rejected f, w')) subs)) hostArgs w =
     (Rejected f, w\<lparr>trace := trace w @ [TrackCommandRun command]\<rparr>)"
  by (simp add: registerCommand_def commandHandlerWithTelemetry_def call_defs)

text \<open>
  The wrapper passes on the first host argument and nothing else; the handler's result
  is returned as it is.
\<close>

lemma wrapper_ignores_further_arguments:
  "commandHandlerWithTelemetry command commandHandler (a # rest) w =
     commandHandlerWithTelemetry command commandHandler [a] w"
  by (simp add: commandHandlerWithTelemetry_def param_def)

lemma wrapper_returns_handler_result:
  "commandHandlerWithTelemetry command commandHandler [a] w =
     commandHandler [a] (trackCommandRun command w)"
  by (simp add: commandHandlerWithTelemetry_def param_def)

text \<open>
  Claim C6. The claim says that the wrapped handler calls the inner handler with exactly
  the host-supplied arguments, so that its result equals the inner handler's on the same
  arguments. The wrapper's single parameter \<^verbatim>\<open>args: any[]\<close> is bound to the first host
  argument only. For a host call with two arguments and a handler that reads its second
  parameter, the wrapped call answers \<^verbatim>\<open>false\<close> where the handler itself, on the same
  arguments, answers \<^verbatim>\<open>true\<close>.
\<close>

theorem registerCommand_forwards_first_argument_only:
  "fst (snd (last (registerCommand MDB_DROP_DATABASE second_argument_given []))
          [Item sample_item, Null] connected_world) = Resolved False
   \<and> fst (second_argument_given [Item sample_item, Null] connected_world) = Resolved True"
  by (simp add: registerCommand_def commandHandlerWithTelemetry_def call_defs param_def
      second_argument_given_def)

section \<open>Drop database, drop collection, delete document\<close>

lemma drop_database_trace:
  "param args 0 = Item element \<Longrightarrow>
   MDB_DROP_DATABASE_handler args w =
     (case onDropDatabaseClicked element of
        Resolved ok \<Rightarrow>
          (Resolved ok,
           w\<lparr>trace := trace w @ (OnDropDatabaseClicked element #
              (if ok then [ShowInformationMessage ''Database successfully dropped.'', ExplorerRefresh]
               else []))\<rparr>)
      | Rejected f \<Rightarrow> (Rejected f, w\<lparr>trace := trace w @ [OnDropDatabaseClicked element]\<rparr>))"
  by (simp add: MDB_DROP_DATABASE_handler_def call_defs split: settled.splits)

lemma drop_collection_trace:
  "param args 0 = Item element \<Longrightarrow>
   MDB_DROP_COLLECTION_handler args w =
     (case onDropCollectionClicked element of
        Resolved ok \<Rightarrow>
          (Resolved ok,
           w\<lparr>trace := trace w @ (OnDropCollectionClicked element #
              (if ok then [ShowInformationMessage ''Collection successfully dropped.'', ExplorerRefresh]
               else []))\<rparr>)
      | Rejected f \<Rightarrow> (Rejected f, w\<lparr>trace := trace w @ [OnDropCollectionClicked element]\<rparr>))"
  by (simp add: MDB_DROP_COLLECTION_handler_def call_defs split: settled.splits)

lemma delete_document_trace:
  "param args 0 = Item element \<Longrightarrow>
   MDB_DELETE_DOCUMENT_FROM_TREE_VIEW_handler args w =
     (case onDeleteDocumentClicked element of
        Resolved ok \<Rightarrow>
          (Resolved ok,
           w\<lparr>trace := trace w @ (OnDeleteDocumentClicked element #
              (if ok then [ShowInformationMessage ''Document successfully deleted.'', ExplorerRefresh]
               else []))\<rparr>)
      | Rejected f \<Rightarrow> (Rejected f, w\<lparr>trace := trace w @ [OnDeleteDocumentClicked element]\<rparr>))"
  by (simp add: MDB_DELETE_DOCUMENT_FROM_TREE_VIEW_handler_def call_defs split: settled.splits)

text \<open>
  Claim C1. For each of the three mutating tree commands, called on a tree item: when the
  item's mutation resolves to \<^verbatim>\<open>true\<close>, the handler shows exactly one message (its
  confirmation), signals \<open>refresh\<close> exactly once and resolves to \<^verbatim>\<open>true\<close>; when the
  mutation resolves to \<^verbatim>\<open>false\<close>, the handler shows no message, signals no refresh and
  resolves to \<^verbatim>\<open>false\<close>.
\<close>

theorem mutation_handlers_confirm_and_refresh:
  assumes "param args 0 = Item element"
  shows "(onDropDatabaseClicked element = Resolved True \<longrightarrow>
            confirmed_and_refreshed MDB_DROP_DATABASE_handler args w
              ''Database successfully dropped.'')
       \<and> (onDropDatabaseClicked element = Resolved False \<longrightarrow>
            silent_failure MDB_DROP_DATABASE_handler args w)
       \<and> (onDropCollectionClicked element = Resolved True \<longrightarrow>
            confirmed_and_refreshed MDB_DROP_COLLECTION_handler args w
              ''Collection successfully dropped.'')
       \<and> (onDropCollectionClicked element = Resolved False \<longrightarrow>
            silent_failure MDB_DROP_COLLECTION_handler args w)
       \<and> (onDeleteDocumentClicked element = Resolved True \<longrightarrow>
            confirmed_and_refreshed MDB_DELETE_DOCUMENT_FROM_TREE_VIEW_handler args w
              ''Document successfully deleted.'')
       \<and> (onDeleteDocumentClicked element = Resolved False \<longrightarrow>
            silent_failure MDB_DELETE_DOCUMENT_FROM_TREE_VIEW_handler args w)"
  using assms
  by (simp add: drop_database_trace drop_collection_trace delete_document_trace
      confirmed_and_refreshed_def silent_failure_def messages_def refreshes_def)

theorem mutation_handlers_confirm_and_refresh_witness:
  "confirmed_and_refreshed MDB_DROP_DATABASE_handler [Item sample_item] connected_world
     ''Database successfully dropped.''
   \<and> confirmed_and_refreshed MDB_DROP_COLLECTION_handler [Item sample_item] connected_world
     ''Collection successfully dropped.''
   \<and> confirmed_and_refreshed MDB_DELETE_DOCUMENT_FROM_TREE_VIEW_handler [Item sample_item]
     connected_world ''Document successfully deleted.''
   \<and> silent_failure MDB_DROP_DATABASE_handler [Item refusing_item] connected_world
   \<and> silent_failure MDB_DROP_COLLECTION_handler [Item refusing_item] connected_world
   \<and> silent_failure MDB_DELETE_DOCUMENT_FROM_TREE_VIEW_handler [Item refusing_item]
     connected_world"
  using mutation_handlers_confirm_and_refresh [of "[Item sample_item]" sample_item connected_world]
    mutation_handlers_confirm_and_refresh [of "[Item refusing_item]" refusing_item connected_world]
  by (simp add: param_def sample_item_def refusing_item_def)

section \<open>Add collection\<close>

text \<open>
  The handler of "add collection" makes one check, \<^verbatim>\<open>isDisconnecting()\<close>. It does not
  read the connection identifier of the node it is given, nor the active one: in a world
  whose active connection is another one than the node's, and that is neither connecting
  nor disconnecting, it goes on to create the playground and resolves to what that
  answers, with no advisory.
\<close>

theorem add_collection_ignores_connection_identity:
  "Some (connectionId sample_item) \<noteq> getActiveConnectionId other_connection_world
   \<and> fst (MDB_ADD_COLLECTION_handler [Item sample_item] other_connection_world) = Resolved True
   \<and> new_events other_connection_world
        (snd (MDB_ADD_COLLECTION_handler [Item sample_item] other_connection_world)) =
      [CreatePlaygroundForCreateCollection (Item sample_item)]"
  by (simp add: MDB_ADD_COLLECTION_handler_def call_defs param_def new_events_def
      other_connection_world_def connected_world_def sample_item_def)

text \<open>
  Claim C3, as amended. The handler checks \<^verbatim>\<open>isDisconnecting()\<close> before it proceeds: when
  the connection is disconnecting it shows the advisory and resolves to \<^verbatim>\<open>false\<close>, and
  the playground is not created. When the connection is neither disconnecting nor
  connecting, it creates the playground for the argument it was given, whatever the
  node's and the active connection identifiers are, and resolves to that operation's
  result.
\<close>

theorem add_collection_checks_disconnecting:
  "(isDisconnecting w \<longrightarrow>
      fst (MDB_ADD_COLLECTION_handler args w) = Resolved False
      \<and> new_events w (snd (MDB_ADD_COLLECTION_handler args w)) =
          [ShowErrorMessage ''Unable to add collection: currently disconnecting.''])
   \<and> (\<not> isDisconnecting w \<and> \<not> isConnecting w \<longrightarrow>
      fst (MDB_ADD_COLLECTION_handler args w) =
        createPlaygroundForCreateCollection w (param args 0)
      \<and> new_events w (snd (MDB_ADD_COLLECTION_handler args w)) =
          [CreatePlaygroundForCreateCollection (param args 0)])"
  by (simp add: MDB_ADD_COLLECTION_handler_def call_defs Let_def)

theorem add_collection_checks_disconnecting_witness:
  "fst (MDB_ADD_COLLECTION_handler [Item sample_item] disconnecting_world) = Resolved False
   \<and> new_events disconnecting_world
        (snd (MDB_ADD_COLLECTION_handler [Item sample_item] disconnecting_world)) =
      [ShowErrorMessage ''Unable to add collection: currently disconnecting.'']
   \<and> fst (MDB_ADD_COLLECTION_handler [Item sample_item] other_connection_world) = Resolved True
   \<and> new_events other_connection_world
        (snd (MDB_ADD_COLLECTION_handler [Item sample_item] other_connection_world)) =
      [CreatePlaygroundForCreateCollection (Item sample_item)]"
  using add_collection_checks_disconnecting [of disconnecting_world "[Item sample_item]"]
    add_collection_checks_disconnecting [of other_connection_world "[Item sample_item]"]
  by (simp add: param_def disconnecting_world_def other_connection_world_def connected_world_def)

section \<open>Add database\<close>

lemma add_database_eval:
  "MDB_ADD_DATABASE_handler args w =
     (case param args 0 of
        Item node \<Rightarrow>
          if Some (connectionId node) \<noteq> getActiveConnectionId w then
            (Resolved False,
             w\<lparr>trace := trace w @
               [ShowErrorMessage ''Please connect to this connection before adding a database.'']\<rparr>)
          else if isDisconnecting w then
            (Resolved False,
             w\<lparr>trace := trace w @
               [ShowErrorMessage ''Unable to add database: currently disconnecting.'']\<rparr>)
          else if isConnecting w then
            (Resolved False,
             w\<lparr>trace := trace w @
               [ShowErrorMessage ''Unable to add database: currently connecting.'']\<rparr>)
          else
            (createPlaygroundForCreateCollection w (Item node),
             w\<lparr>trace := trace w @ [CreatePlaygroundForCreateCollection (Item node)]\<rparr>)
      | _ \<Rightarrow>
          (Resolved False,
           w\<lparr>trace := trace w @
             [ShowErrorMessage
               ''Please wait for the connection to finish loading before adding a database.'']\<rparr>))"
  by (simp add: MDB_ADD_DATABASE_handler_def call_defs split: jsval.splits)

text \<open>
  Claim C4. When one of the four preconditions of "add database" fails (no tree node, a
  node of another connection than the active one, disconnecting, connecting), the handler
  resolves to \<^verbatim>\<open>false\<close> and the only thing it has done is to show one advisory; the
  playground is not created. When all four hold, the only thing it does is to create the
  playground for the node, and it resolves to that operation's result. The last four
  conjuncts give the advisory of each guard, in the order the guards are tried.
\<close>

theorem add_database_guards:
  "(\<not> add_database_preconditions (param args 0) w \<longrightarrow>
      fst (MDB_ADD_DATABASE_handler args w) = Resolved False
      \<and> (\<exists>advisory. new_events w (snd (MDB_ADD_DATABASE_handler args w)) =
            [ShowErrorMessage advisory]))
   \<and> (add_database_preconditions (param args 0) w \<longrightarrow>
      fst (MDB_ADD_DATABASE_handler args w) =
        createPlaygroundForCreateCollection w (param args 0)
      \<and> new_events w (snd (MDB_ADD_DATABASE_handler args w)) =
          [CreatePlaygroundForCreateCollection (param args 0)])
   \<and> (\<not> truthy (param args 0) \<longrightarrow>
      new_events w (snd (MDB_ADD_DATABASE_handler args w)) =
        [ShowErrorMessage
          ''Please wait for the connection to finish loading before adding a database.''])
   \<and> (param args 0 = Item node \<and> Some (connectionId node) \<noteq> getActiveConnectionId w \<longrightarrow>
      new_events w (snd (MDB_ADD_DATABASE_handler args w)) =
        [ShowErrorMessage ''Please connect to this connection before adding a database.''])
   \<and> (param args 0 = Item node \<and> Some (connectionId node) = getActiveConnectionId w
        \<and> isDisconnecting w \<longrightarrow>
      new_events w (snd (MDB_ADD_DATABASE_handler args w)) =
        [ShowErrorMessage ''Unable to add database: currently disconnecting.''])
   \<and> (param args 0 = Item node \<and> Some (connectionId node) = getActiveConnectionId w
        \<and> \<not> isDisconnecting w \<and> isConnecting w \<longrightarrow>
      new_events w (snd (MDB_ADD_DATABASE_handler args w)) =
        [ShowErrorMessage ''Unable to add database: currently connecting.''])"
  by (cases "param args 0")
    (simp_all add: add_database_eval add_database_preconditions_def)

theorem add_database_guards_witness:
  "fst (MDB_ADD_DATABASE_handler [] connected_world) = Resolved False
   \<and> new_events connected_world (snd (MDB_ADD_DATABASE_handler [] connected_world)) =
       [ShowErrorMessage
         ''Please wait for the connection to finish loading before adding a database.'']
   \<and> fst (MDB_ADD_DATABASE_handler [Item sample_item] other_connection_world) = Resolved False
   \<and> new_events other_connection_world
       (snd (MDB_ADD_DATABASE_handler [Item sample_item] other_connection_world)) =
       [ShowErrorMessage ''Please connect to this connection before adding a database.'']
   \<and> fst (MDB_ADD_DATABASE_handler [Item sample_item] disconnecting_world) = Resolved False
   \<and> new_events disconnecting_world
       (snd (MDB_ADD_DATABASE_handler [Item sample_item] disconnecting_world)) =
       [ShowErrorMessage ''Unable to add database: currently disconnecting.'']
   \<and> fst (MDB_ADD_DATABASE_handler [Item sample_item] connecting_world) = Resolved False
   \<and> new_events connecting_world
       (snd (MDB_ADD_DATABASE_handler [Item sample_item] connecting_world)) =
       [ShowErrorMessage ''Unable to add database: currently connecting.'']
   \<and> fst (MDB_ADD_DATABASE_handler [Item sample_item] connected_world) = Resolved True
   \<and> new_events connected_world
       (snd (MDB_ADD_DATABASE_handler [Item sample_item] connected_world)) =
       [CreatePlaygroundForCreateCollection (Item sample_item)]"
  using add_database_guards [of "[]" connected_world sample_item]
    add_database_guards [of "[Item sample_item]" other_connection_world sample_item]
    add_database_guards [of "[Item sample_item]" disconnecting_world sample_item]
    add_database_guards [of "[Item sample_item]" connecting_world sample_item]
    add_database_guards [of "[Item sample_item]" connected_world sample_item]
  by (simp add: param_def add_database_preconditions_def other_connection_world_def
      disconnecting_world_def connecting_world_def connected_world_def sample_item_def)

section \<open>A missing argument\<close>

text \<open>
  Claim C7. The claim says that every handler that needs a tree node checks for a missing
  argument, shows an advisory and resolves to \<^verbatim>\<open>false\<close>. Called with no argument, the
  handlers of "drop database", "copy database name", "drop collection" and "delete
  document" read a member of \<^verbatim>\<open>undefined\<close>: the promise is rejected with a
  \<open>TypeError\<close>, nothing is shown and nothing is returned. The handler of "add database"
  is the one that makes the check.
\<close>

theorem missing_argument_is_not_checked:
  "MDB_DROP_DATABASE_handler [] w = (Rejected TypeError, w)
   \<and> MDB_COPY_DATABASE_NAME_handler [] w = (Rejected TypeError, w)
   \<and> MDB_DROP_COLLECTION_handler [] w = (Rejected TypeError, w)
   \<and> MDB_DELETE_DOCUMENT_FROM_TREE_VIEW_handler [] w = (Rejected TypeError, w)
   \<and> MDB_ADD_DATABASE_handler [] w =
       (Resolved False,
        showErrorMessage
          ''Please wait for the connection to finish loading before adding a database.'' w)"
  by (simp add: MDB_DROP_DATABASE_handler_def MDB_COPY_DATABASE_NAME_handler_def
      MDB_DROP_COLLECTION_handler_def MDB_DELETE_DOCUMENT_FROM_TREE_VIEW_handler_def
      MDB_ADD_DATABASE_handler_def param_def)

section \<open>Refresh commands\<close>

lemmas refresh_handler_defs =
  MDB_REFRESH_CONNECTION_handler_def MDB_REFRESH_DATABASE_handler_def
  MDB_REFRESH_COLLECTION_handler_def MDB_REFRESH_DOCUMENT_LIST_handler_def
  MDB_REFRESH_SCHEMA_handler_def MDB_REFRESH_INDEXES_handler_def

text \<open>Without a reset, a node that has cached children answers from its cache.\<close>

lemma expand_cached:
  "childrenCache w node = Some cached \<Longrightarrow> expand_node node w = (cached, w)"
  by (simp add: expand_node_def)

text \<open>
  The world a plain refresh handler leaves when the \<open>resetCache\<close> call returns, and the
  one the awaiting handler leaves when the returned promise resolves.
\<close>

lemma refresh_connection_world:
  "param args 0 = Item node \<Longrightarrow> resetCache node = Returns p \<Longrightarrow>
   MDB_REFRESH_CONNECTION_handler args w =
     (Resolved True,
      w\<lparr>trace := trace w @ [ResetCache node, ExplorerRefresh],
        childrenCache := (childrenCache w)(node := None)\<rparr>)"
  by (simp add: MDB_REFRESH_CONNECTION_handler_def call_defs)

lemma refresh_document_list_world:
  "param args 0 = Item node \<Longrightarrow> resetCache node = Returns (Resolved ()) \<Longrightarrow>
   MDB_REFRESH_DOCUMENT_LIST_handler args w =
     (Resolved True,
      w\<lparr>trace := trace w @ [ResetCache node, ExplorerRefresh],
        childrenCache := (childrenCache w)(node := None)\<rparr>)"
  by (simp add: MDB_REFRESH_DOCUMENT_LIST_handler_def call_defs)

text \<open>
  A rejection of the promise that \<open>resetCache\<close> returns stops only the handler that
  awaits it.
\<close>

lemma refresh_document_list_awaits:
  "param args 0 = Item node \<Longrightarrow> resetCache node = Returns (Rejected f) \<Longrightarrow>
   MDB_REFRESH_DOCUMENT_LIST_handler args w =
     (Rejected f,
      w\<lparr>trace := trace w @ [ResetCache node],
        childrenCache := (childrenCache w)(node := None)\<rparr>)"
  by (simp add: MDB_REFRESH_DOCUMENT_LIST_handler_def call_defs)

lemma refresh_throwing_reset:
  "param args 0 = Item node \<Longrightarrow> resetCache node = Throws f \<Longrightarrow>
   MDB_REFRESH_CONNECTION_handler args w = (Rejected f, w\<lparr>trace := trace w @ [ResetCache node]\<rparr>)
   \<and> MDB_REFRESH_DOCUMENT_LIST_handler args w =
       (Rejected f, w\<lparr>trace := trace w @ [ResetCache node]\<rparr>)"
  by (simp add: refresh_handler_defs call_defs)

text \<open>
  Claim C8. Each of the six refresh handlers, called on a tree node, first calls
  \<open>resetCache\<close> on that node, then signals the explorer's \<open>refresh\<close> exactly once, and
  resolves to \<^verbatim>\<open>true\<close>, doing nothing else; and the next expansion of the node fetches
  its children anew, whatever was cached for it before. For the five plain handlers this
  holds whenever the \<open>resetCache\<close> call returns; for the document-list handler, which
  awaits it, whenever the returned promise resolves.
\<close>

theorem refresh_handlers_reset_then_refresh:
  assumes "param args 0 = Item node"
  shows "(resetCache node = Returns p \<longrightarrow>
            refreshed MDB_REFRESH_CONNECTION_handler args w node
            \<and> refreshed MDB_REFRESH_DATABASE_handler args w node
            \<and> refreshed MDB_REFRESH_COLLECTION_handler args w node
            \<and> refreshed MDB_REFRESH_SCHEMA_handler args w node
            \<and> refreshed MDB_REFRESH_INDEXES_handler args w node)
       \<and> (resetCache node = Returns (Resolved ()) \<longrightarrow>
            refreshed MDB_REFRESH_DOCUMENT_LIST_handler args w node)"
  using assms
  by (simp add: refreshed_def refresh_handler_defs call_defs Let_def)

theorem refresh_handlers_reset_then_refresh_witness:
  "childrenCache connected_world sample_item = Some [''stale'']
   \<and> refreshed MDB_REFRESH_CONNECTION_handler [Item sample_item] connected_world sample_item
   \<and> refreshed MDB_REFRESH_DATABASE_handler [Item sample_item] connected_world sample_item
   \<and> refreshed MDB_REFRESH_COLLECTION_handler [Item sample_item] connected_world sample_item
   \<and> refreshed MDB_REFRESH_SCHEMA_handler [Item sample_item] connected_world sample_item
   \<and> refreshed MDB_REFRESH_INDEXES_handler [Item sample_item] connected_world sample_item
   \<and> refreshed MDB_REFRESH_DOCUMENT_LIST_handler [Item sample_item] connected_world sample_item
   \<and> refreshed MDB_REFRESH_CONNECTION_handler [Item failing_reset_item] connected_world
       failing_reset_item
   \<and> fst (expand_node sample_item
            (snd (MDB_REFRESH_DOCUMENT_LIST_handler [Item sample_item] connected_world))) =
       [''admin'', ''shop'']"
  using refresh_handlers_reset_then_refresh
      [of "[Item sample_item]" sample_item "Resolved ()" connected_world]
    refresh_handlers_reset_then_refresh
      [of "[Item failing_reset_item]" failing_reset_item
          "Rejected (ExternalFault ''count'')" connected_world]
  by (simp add: param_def sample_item_def failing_reset_item_def connected_world_def
      refresh_document_list_world expand_node_def emit_def Let_def)

section \<open>Clipboard commands\<close>

text \<open>
  Claim C10. None of the six clipboard handlers ever resolves to \<^verbatim>\<open>false\<close>: they have no
  failure return of their own. Called on a tree item (the object-id command needs none)
  and with the operations they await resolving, each writes its text to the clipboard,
  then shows the one message \<^verbatim>\<open>Copied to clipboard.\<close>, and resolves to \<^verbatim>\<open>true\<close>.
\<close>

theorem copy_handlers_write_notify_and_return_true:
  "fst (MDB_COPY_CONNECTION_STRING_handler args w) \<noteq> Resolved False
   \<and> fst (MDB_COPY_DATABASE_NAME_handler args w) \<noteq> Resolved False
   \<and> fst (MDB_COPY_COLLECTION_NAME_handler args w) \<noteq> Resolved False
   \<and> fst (MDB_COPY_SCHEMA_FIELD_NAME_handler args w) \<noteq> Resolved False
   \<and> fst (MDB_COPY_DOCUMENT_CONTENTS_FROM_TREE_VIEW_handler args w) \<noteq> Resolved False
   \<and> fst (MDB_GENERATE_OBJECTID_TO_CLIPBOARD_handler args w) \<noteq> Resolved False
   \<and> (param args 0 = Item element
        \<and> copyConnectionStringByConnectionId w (connectionId element) = Resolved connectionString
        \<and> writeText w connectionString = Resolved () \<longrightarrow>
      MDB_COPY_CONNECTION_STRING_handler args w =
        (Resolved True,
         w\<lparr>trace := trace w @
           [CopyConnectionStringByConnectionId (connectionId element),
            ClipboardWriteText connectionString,
            ShowInformationMessage ''Copied to clipboard.'']\<rparr>))
   \<and> (param args 0 = Item element \<and> writeText w (databaseName element) = Resolved () \<longrightarrow>
      MDB_COPY_DATABASE_NAME_handler args w =
        (Resolved True,
         w\<lparr>trace := trace w @
           [ClipboardWriteText (databaseName element),
            ShowInformationMessage ''Copied to clipboard.'']\<rparr>))
   \<and> (param args 0 = Item element \<and> writeText w (collectionName element) = Resolved () \<longrightarrow>
      MDB_COPY_COLLECTION_NAME_handler args w =
        (Resolved True,
         w\<lparr>trace := trace w @
           [ClipboardWriteText (collectionName element),
            ShowInformationMessage ''Copied to clipboard.'']\<rparr>))
   \<and> (param args 0 = Item element \<and> writeText w (getFieldName element) = Resolved () \<longrightarrow>
      MDB_COPY_SCHEMA_FIELD_NAME_handler args w =
        (Resolved True,
         w\<lparr>trace := trace w @
           [ClipboardWriteText (getFieldName element),
            ShowInformationMessage ''Copied to clipboard.'']\<rparr>))
   \<and> (param args 0 = Item element
        \<and> getStringifiedEJSONDocumentContents element = Resolved documentContents
        \<and> writeText w documentContents = Resolved () \<longrightarrow>
      MDB_COPY_DOCUMENT_CONTENTS_FROM_TREE_VIEW_handler args w =
        (Resolved True,
         w\<lparr>trace := trace w @
           [GetStringifiedEJSONDocumentContents element,
            ClipboardWriteText documentContents,
            ShowInformationMessage ''Copied to clipboard.'']\<rparr>))
   \<and> (writeText w (generateId w) = Resolved () \<longrightarrow>
      MDB_GENERATE_OBJECTID_TO_CLIPBOARD_handler args w =
        (Resolved True,
         w\<lparr>trace := trace w @
           [GenerateId, ClipboardWriteText (generateId w),
            ShowInformationMessage ''Copied to clipboard.'']\<rparr>))"
  by (simp add: MDB_COPY_CONNECTION_STRING_handler_def MDB_COPY_DATABASE_NAME_handler_def
      MDB_COPY_COLLECTION_NAME_handler_def MDB_COPY_SCHEMA_FIELD_NAME_handler_def
      MDB_COPY_DOCUMENT_CONTENTS_FROM_TREE_VIEW_handler_def
      MDB_GENERATE_OBJECTID_TO_CLIPBOARD_handler_def call_defs
      split: jsval.splits settled.splits)

theorem copy_handlers_write_notify_and_return_true_witness:
  "MDB_COPY_CONNECTION_STRING_handler [Item sample_item] connected_world =
     (Resolved True,
      connected_world\<lparr>trace :=
        [CopyConnectionStringByConnectionId ''conn-1'',
         ClipboardWriteText ''mongodb://localhost:27017'',
         ShowInformationMessage ''Copied to clipboard.'']\<rparr>)
   \<and> MDB_COPY_DATABASE_NAME_handler [Item sample_item] connected_world =
     (Resolved True,
      connected_world\<lparr>trace :=
        [ClipboardWriteText ''shop'', ShowInformationMessage ''Copied to clipboard.'']\<rparr>)
   \<and> MDB_COPY_COLLECTION_NAME_handler [Item sample_item] connected_world =
     (Resolved True,
      connected_world\<lparr>trace :=
        [ClipboardWriteText ''orders'', ShowInformationMessage ''Copied to clipboard.'']\<rparr>)
   \<and> MDB_COPY_SCHEMA_FIELD_NAME_handler [Item sample_item] connected_world =
     (Resolved True,
      connected_world\<lparr>trace :=
        [ClipboardWriteText ''price'', ShowInformationMessage ''Copied to clipboard.'']\<rparr>)
   \<and> MDB_COPY_DOCUMENT_CONTENTS_FROM_TREE_VIEW_handler [Item sample_item] connected_world =
     (Resolved True,
      connected_world\<lparr>trace :=
        [GetStringifiedEJSONDocumentContents sample_item, ClipboardWriteText ''{}'',
         ShowInformationMessage ''Copied to clipboard.'']\<rparr>)
   \<and> MDB_GENERATE_OBJECTID_TO_CLIPBOARD_handler [] connected_world =
     (Resolved True,
      connected_world\<lparr>trace :=
        [GenerateId, ClipboardWriteText ''5f1b2c3d4e5f6a7b8c9d0e1f'',
         ShowInformationMessage ''Copied to clipboard.'']\<rparr>)"
  using copy_handlers_write_notify_and_return_true
      [of "[Item sample_item]" connected_world sample_item "''mongodb://localhost:27017''" "''{}''"]
    copy_handlers_write_notify_and_return_true
      [of "[]" connected_world sample_item "''mongodb://localhost:27017''" "''{}''"]
  by (simp add: param_def sample_item_def connected_world_def)

section \<open>The first-run gate over a run of activations\<close>

lemma gate_step:
  "showOverviewPageIfRecentlyInstalled w =
     (if shown w then w
      else w\<lparr>trace := trace w @
                (if hasSavedConnections w then [] else [ExecuteCommand MDB_OPEN_OVERVIEW_PAGE])
                @ [StorageUpdate GLOBAL_HAS_BEEN_SHOWN_INITIAL_VIEW True],
              storage := (storage w)(GLOBAL_HAS_BEEN_SHOWN_INITIAL_VIEW \<mapsto> True)\<rparr>)"
  by (simp add: showOverviewPageIfRecentlyInstalled_def shown_def call_defs Let_def)

lemma shown_after_gate: "shown (showOverviewPageIfRecentlyInstalled w)"
  by (simp add: gate_step shown_def)

lemma shown_saved [simp]: "shown (w\<lparr>hasSavedConnections := saved\<rparr>) = shown w"
  by (simp add: shown_def)

lemma activations_when_shown:
  "shown w \<Longrightarrow> trace (activations cs w) = trace w \<and> shown (activations cs w)"
  by (induction cs arbitrary: w) (simp_all add: gate_step)

lemma flag_history_when_shown:
  "shown w \<Longrightarrow> flag_history cs w = replicate (Suc (length cs)) True"
  by (induction cs arbitrary: w) (simp_all add: gate_step)

lemma activations_events: "new_events w (activations cs w) = gate_events (shown w) cs"
proof (cases cs)
  case Nil
  then show ?thesis by (simp add: gate_events_def)
next
  case (Cons saved rest)
  let ?w1 = "showOverviewPageIfRecentlyInstalled (w\<lparr>hasSavedConnections := saved\<rparr>)"
  have later: "trace (activations rest ?w1) = trace ?w1"
    using activations_when_shown [OF shown_after_gate] by simp
  show ?thesis
    using Cons later by (simp add: gate_events_def gate_step new_events_def)
qed

lemma flag_history_eq: "flag_history cs w = shown w # replicate (length cs) True"
proof (cases cs)
  case Nil
  then show ?thesis by simp
next
  case (Cons saved rest)
  then show ?thesis
    using flag_history_when_shown [OF shown_after_gate, of rest "w\<lparr>hasSavedConnections := saved\<rparr>"]
    by simp
qed

text \<open>
  Claim C5. Over any run of activations, from any stored state: the flag is Shown after
  the first activation and stays so, so it goes from NotShown to Shown at most once;
  the flag is written at most once, exactly when it was NotShown and there is an
  activation, whether or not saved connections exist; "open overview" is triggered at
  most once, exactly when the flag was NotShown and no saved connection existed at the
  first activation.
\<close>

theorem first_run_gate_fires_once:
  "flag_history cs w = shown w # replicate (length cs) True
   \<and> new_events w (activations cs w) = gate_events (shown w) cs
   \<and> count_list (new_events w (activations cs w))
        (StorageUpdate GLOBAL_HAS_BEEN_SHOWN_INITIAL_VIEW True) \<le> 1
   \<and> count_list (new_events w (activations cs w)) (ExecuteCommand MDB_OPEN_OVERVIEW_PAGE) \<le> 1
   \<and> (StorageUpdate GLOBAL_HAS_BEEN_SHOWN_INITIAL_VIEW True
        \<in> set (new_events w (activations cs w))) = (\<not> shown w \<and> cs \<noteq> [])
   \<and> (ExecuteCommand MDB_OPEN_OVERVIEW_PAGE \<in> set (new_events w (activations cs w))) =
        (\<not> shown w \<and> (\<exists>rest. cs = False # rest))"
  unfolding activations_events flag_history_eq
  by (cases cs) (auto simp add: gate_events_def)

theorem first_run_gate_fires_once_witness:
  "flag_history [False, True, False] fresh_install_world = [False, True, True, True]
   \<and> new_events fresh_install_world (activations [False, True, False] fresh_install_world) =
       [ExecuteCommand MDB_OPEN_OVERVIEW_PAGE,
        StorageUpdate GLOBAL_HAS_BEEN_SHOWN_INITIAL_VIEW True]
   \<and> new_events fresh_install_world (activations [True, False, False] fresh_install_world) =
       [StorageUpdate GLOBAL_HAS_BEEN_SHOWN_INITIAL_VIEW True]"
  using first_run_gate_fires_once [of "[False, True, False]" fresh_install_world]
    first_run_gate_fires_once [of "[True, False, False]" fresh_install_world]
  by (simp add: gate_events_def shown_def fresh_install_world_def connected_world_def)

section \<open>Teardown order\<close>

lemma deactivate_trace:
  "deactivate w =
     (case disconnect w of
        Resolved _ \<Rightarrow>
          (Resolved (),
           w\<lparr>trace := trace w @
             [DisconnectCalled, DisconnectSettled,
              Deactivated ExplorerController, Deactivated HelpExplorer,
              Deactivated PlaygroundsExplorer, Deactivated PlaygroundController,
              Deactivated TelemetryService, Deactivated LanguageServerController,
              Deactivated EditorsController]\<rparr>)
      | Rejected f \<Rightarrow>
          (Rejected f, w\<lparr>trace := trace w @ [DisconnectCalled, DisconnectSettled]\<rparr>))"
  by (simp add: deactivate_def call_defs split: settled.splits)

text \<open>
  Claim C9. \<open>dispose\<close> does exactly what \<open>deactivate\<close> does. \<open>deactivate\<close> calls
  \<open>disconnect\<close> and goes on only when that call has settled: the seven components are
  deactivated after it, in program order, and not at all when it is rejected. No
  component is deactivated before the disconnect has settled.
\<close>

theorem deactivate_awaits_disconnect_first:
  "dispose w = deactivate w
   \<and> deactivate w =
     (case disconnect w of
        Resolved _ \<Rightarrow>
          (Resolved (),
           w\<lparr>trace := trace w @
             [DisconnectCalled, DisconnectSettled,
              Deactivated ExplorerController, Deactivated HelpExplorer,
              Deactivated PlaygroundsExplorer, Deactivated PlaygroundController,
              Deactivated TelemetryService, Deactivated LanguageServerController,
              Deactivated EditorsController]\<rparr>)
      | Rejected f \<Rightarrow>
          (Rejected f, w\<lparr>trace := trace w @ [DisconnectCalled, DisconnectSettled]\<rparr>))
   \<and> (\<forall>c. Deactivated c \<notin>
          set (takeWhile (\<lambda>e. e \<noteq> DisconnectSettled) (new_events w (snd (deactivate w)))))"
  by (cases "disconnect w") (simp_all add: dispose_def deactivate_trace await_def)

end
